theory Spec2Isabelle
  imports Complex_Main "HOL-Library.Char_ord" "HOL-Library.List_Lexorder"
begin

section \<open>The HVAC coordination server (server/server.py)\<close>

text \<open>
  The server keeps three module-level dictionaries (\<open>latest_data\<close>, \<open>hvac_settings\<close>,
  \<open>schedule_settings\<close>) and one CSV file. Every request handler is modelled as a function
  from the request body, the clock and the state before the call to the response and the
  state after it. A Python exception is a value; the writes a handler made before it
  raised stay in the returned state, as they do in the dictionaries.
\<close>

subsection \<open>JSON values and the Python operations the handlers apply to them\<close>

text \<open>
  \<open>request.get_json()\<close> yields \<open>None\<close>, a bool, an int, a float, a str, a list or a dict.
  A finite float is carried by its exact value; \<open>NaN\<close>, \<open>Infinity\<close> and \<open>-Infinity\<close>, which
  \<open>json.loads\<close> accepts, have a constructor each. A dict is the list of its items, whose
  keys are distinct, looked up with \<open>map_of\<close>. Strings are ASCII. The library functions are
  those of CPython 3.11 and later.
\<close>

datatype json =
    JNull
  | JBool bool
  | JInt int
  | JFloat rat
  | JNaN
  | JInf
  | JNegInf
  | JStr string
  | JArr "json list"
  | JObj "(string \<times> json) list"

datatype py_exception =
  AttributeError | TypeError | KeyError | ValueError | OverflowError | OSError | CsvError

datatype validation_error =
    MissingTemperatureOrHumidity
  | TemperatureOutOfRange
  | InvalidStartTime
  | InvalidEndTime

text \<open>A handler's reply: the 200 body, a 400 with its message, or the 500 of the
  \<open>except Exception\<close> clause. \<open>Unhandled\<close> is an exception that leaves a handler which has
  no \<open>try\<close>.\<close>

datatype 'a response =
    Ok200 'a
  | Err400 validation_error
  | Err500 py_exception
  | Unhandled py_exception

text \<open>\<open>d.get(k)\<close> on a dict: \<open>None\<close> for a missing key.\<close>

definition dict_get :: "(string \<times> json) list \<Rightarrow> string \<Rightarrow> json" where
  "dict_get kvs k = (case map_of kvs k of None \<Rightarrow> JNull | Some v \<Rightarrow> v)"

text \<open>\<open>d.get(k)\<close> on any value: only a dict has the method.\<close>

definition py_get :: "json \<Rightarrow> string \<Rightarrow> py_exception + json" where
  "py_get d k =
     (case d of
        JObj kvs \<Rightarrow> Inr (dict_get kvs k)
      | _ \<Rightarrow> Inl AttributeError)"

fun is_prefix :: "string \<Rightarrow> string \<Rightarrow> bool" where
  "is_prefix [] ys = True"
| "is_prefix (x # xs) [] = False"
| "is_prefix (x # xs) (y # ys) = (x = y \<and> is_prefix xs ys)"

fun is_substring :: "string \<Rightarrow> string \<Rightarrow> bool" where
  "is_substring xs [] = (xs = [])"
| "is_substring xs (y # ys) = (is_prefix xs (y # ys) \<or> is_substring xs ys)"

text \<open>\<open>k in d\<close> for a str \<open>k\<close>: a key test on a dict, a membership test on a list, a
  substring test on a str, a TypeError on anything else.\<close>

definition py_in :: "string \<Rightarrow> json \<Rightarrow> py_exception + bool" where
  "py_in k d =
     (case d of
        JObj kvs \<Rightarrow> Inr (map_of kvs k \<noteq> None)
      | JArr xs \<Rightarrow> Inr (List.member xs (JStr k))
      | JStr s \<Rightarrow> Inr (is_substring k s)
      | _ \<Rightarrow> Inl TypeError)"

text \<open>\<open>d[k]\<close> for a str \<open>k\<close>: a list and a str take integer indices only.\<close>

definition py_getitem :: "json \<Rightarrow> string \<Rightarrow> py_exception + json" where
  "py_getitem d k =
     (case d of
        JObj kvs \<Rightarrow> (case map_of kvs k of None \<Rightarrow> Inl KeyError | Some v \<Rightarrow> Inr v)
      | _ \<Rightarrow> Inl TypeError)"

text \<open>\<open>bool(v)\<close>.\<close>

definition py_bool :: "json \<Rightarrow> bool" where
  "py_bool v =
     (case v of
        JNull \<Rightarrow> False
      | JBool b \<Rightarrow> b
      | JInt n \<Rightarrow> n \<noteq> 0
      | JFloat q \<Rightarrow> q \<noteq> 0
      | JNaN \<Rightarrow> True
      | JInf \<Rightarrow> True
      | JNegInf \<Rightarrow> True
      | JStr s \<Rightarrow> s \<noteq> []
      | JArr xs \<Rightarrow> xs \<noteq> []
      | JObj kvs \<Rightarrow> kvs \<noteq> [])"

definition is_digit :: "char \<Rightarrow> bool" where
  "is_digit c = (48 \<le> (of_char c :: nat) \<and> (of_char c :: nat) \<le> 57)"

definition digit_val :: "char \<Rightarrow> nat" where
  "digit_val c = of_char c - 48"

text \<open>The whitespace \<open>int\<close> skips at both ends of an ASCII str: the characters 9 to 13, and
  the space.\<close>

definition is_space :: "char \<Rightarrow> bool" where
  "is_space c = (let n = (of_char c :: nat) in (9 \<le> n \<and> n \<le> 13) \<or> n = 32)"

text \<open>The digits of \<open>int(s)\<close>: a digit, then digits each optionally preceded by one
  underscore.\<close>

fun int_digits :: "nat \<Rightarrow> string \<Rightarrow> nat option" where
  "int_digits acc [] = Some acc"
| "int_digits acc [c] = (if is_digit c then Some (10 * acc + digit_val c) else None)"
| "int_digits acc (c # d # ds) =
     (if is_digit c then int_digits (10 * acc + digit_val c) (d # ds)
      else if c = CHR ''_'' \<and> is_digit d then int_digits (10 * acc + digit_val d) ds
      else None)"

definition int_unsigned :: "string \<Rightarrow> nat option" where
  "int_unsigned s =
     (case s of
        [] \<Rightarrow> None
      | c # cs \<Rightarrow> if is_digit c then int_digits (digit_val c) cs else None)"

definition strip :: "string \<Rightarrow> string" where
  "strip s = rev (dropWhile is_space (rev (dropWhile is_space s)))"

text \<open>\<open>int(s)\<close> on a str. A literal with more than 4300 digits is refused with a
  ValueError, as a malformed one is.\<close>

definition max_str_digits :: nat where
  "max_str_digits = 4300"

definition int_of_str :: "string \<Rightarrow> py_exception + int" where
  "int_of_str s =
     (case strip s of
        [] \<Rightarrow> Inl ValueError
      | c # cs \<Rightarrow>
          if max_str_digits < length (filter is_digit (c # cs)) then Inl ValueError
          else if c = CHR ''-'' then
            (case int_unsigned cs of None \<Rightarrow> Inl ValueError | Some n \<Rightarrow> Inr (- int n))
          else if c = CHR ''+'' then
            (case int_unsigned cs of None \<Rightarrow> Inl ValueError | Some n \<Rightarrow> Inr (int n))
          else
            (case int_unsigned (c # cs) of None \<Rightarrow> Inl ValueError | Some n \<Rightarrow> Inr (int n)))"

text \<open>\<open>int(v)\<close>: a float is truncated towards zero, a str is parsed, \<open>None\<close>, a list and a
  dict raise TypeError, \<open>NaN\<close> raises ValueError and an infinity OverflowError.\<close>

definition py_int :: "json \<Rightarrow> py_exception + int" where
  "py_int v =
     (case v of
        JNull \<Rightarrow> Inl TypeError
      | JBool b \<Rightarrow> Inr (if b then 1 else 0)
      | JInt n \<Rightarrow> Inr n
      | JFloat q \<Rightarrow> Inr (if 0 \<le> q then \<lfloor>q\<rfloor> else \<lceil>q\<rceil>)
      | JNaN \<Rightarrow> Inl ValueError
      | JInf \<Rightarrow> Inl OverflowError
      | JNegInf \<Rightarrow> Inl OverflowError
      | JStr s \<Rightarrow> int_of_str s
      | JArr xs \<Rightarrow> Inl TypeError
      | JObj kvs \<Rightarrow> Inl TypeError)"

subsection \<open>The shared state\<close>

text \<open>\<open>latest_data\<close>: the values are whatever the device posted; the timestamp is \<open>None\<close>
  until the first reading.\<close>

record latest =
  temperature :: json
  humidity :: json
  timestamp :: "string option"

text \<open>\<open>hvac_settings\<close>. The key \<open>source\<close> is absent from the initial dict and added by the
  first write: \<open>None\<close> is the absent key.\<close>

record hvac =
  hvac_power :: json
  set_temp :: json
  mode :: json
  fan_speed :: json
  timer :: json
  swing :: json
  hvac_timestamp :: "string option"
  source :: "string option"

record schedule =
  enabled :: bool
  start_time :: string
  end_time :: string
  schedule_timestamp :: "string option"

text \<open>The CSV file, as the records written to it (header first), each a list of cells, each
  cell the text the writer was given for it: \<open>None\<close> when the file does not exist. The
  quoting the writer adds and the reader removes is not modelled. The two flags say whether
  opening the file for reading, or opening it for appending and writing the row, raises
  OSError.\<close>

record storage =
  rows :: "string list list option"
  read_fails :: bool
  write_fails :: bool

record server_state =
  latest_data :: latest
  hvac_settings :: hvac
  schedule_settings :: schedule
  data_file :: storage

definition initial_latest :: latest where
  "initial_latest = \<lparr>temperature = JNull, humidity = JNull, timestamp = None\<rparr>"

definition initial_hvac :: hvac where
  "initial_hvac =
     \<lparr>hvac_power = JNull, set_temp = JNull, mode = JNull, fan_speed = JNull, timer = JNull,
      swing = JNull, hvac_timestamp = None, source = None\<rparr>"

definition initial_schedule :: schedule where
  "initial_schedule =
     \<lparr>enabled = False, start_time = ''23:00'', end_time = ''05:00'',
      schedule_timestamp = None\<rparr>"

definition csv_header :: "string list" where
  "csv_header = [''Timestamp'', ''Temperature'', ''Humidity'']"

text \<open>\<open>init_csv\<close>: writes the header only when the file does not exist.\<close>

definition init_csv :: "storage \<Rightarrow> storage" where
  "init_csv f = (case rows f of None \<Rightarrow> f\<lparr>rows := Some [csv_header]\<rparr> | Some _ \<Rightarrow> f)"

definition initial_state :: server_state where
  "initial_state =
     \<lparr>latest_data = initial_latest, hvac_settings = initial_hvac,
      schedule_settings = initial_schedule,
      data_file = init_csv \<lparr>rows = None, read_fails = False, write_fails = False\<rparr>\<rparr>"

subsection \<open>Handlers as sequences of steps\<close>

text \<open>A step of a handler body either falls through to the next statement or leaves the
  handler with a reply; in both cases it carries the state as written so far.\<close>

datatype ('r, 's) step = Continue 's | Abort "'r response" 's

definition next_step :: "('r, 's) step \<Rightarrow> ('s \<Rightarrow> ('r, 's) step) \<Rightarrow> ('r, 's) step" where
  "next_step m f = (case m of Continue s \<Rightarrow> f s | Abort r s \<Rightarrow> Abort r s)"

text \<open>\<open>if k in data: write(data[k])\<close>.\<close>

definition copy_if_present ::
  "string \<Rightarrow> (json \<Rightarrow> 's \<Rightarrow> 's) \<Rightarrow> json \<Rightarrow> 's \<Rightarrow> ('r, 's) step" where
  "copy_if_present k write data s =
     (case py_in k data of
        Inl e \<Rightarrow> Abort (Err500 e) s
      | Inr False \<Rightarrow> Continue s
      | Inr True \<Rightarrow>
          (case py_getitem data k of
             Inl e \<Rightarrow> Abort (Err500 e) s
           | Inr v \<Rightarrow> Continue (write v s)))"

subsection \<open>update_hvac\<close>

definition set_temp_step :: "json \<Rightarrow> hvac \<Rightarrow> ('r, hvac) step" where
  "set_temp_step data s =
     (case py_in ''set_temp'' data of
        Inl e \<Rightarrow> Abort (Err500 e) s
      | Inr False \<Rightarrow> Continue s
      | Inr True \<Rightarrow>
          (case py_getitem data ''set_temp'' of
             Inl e \<Rightarrow> Abort (Err500 e) s
           | Inr v \<Rightarrow>
               (case py_int v of
                  Inl e \<Rightarrow> Abort (Err500 e) s
                | Inr temp \<Rightarrow>
                    if 16 \<le> temp \<and> temp \<le> 30 then Continue (s\<lparr>set_temp := JInt temp\<rparr>)
                    else Abort (Err400 TemperatureOutOfRange) s)))"

definition update_hvac_fields :: "json \<Rightarrow> hvac \<Rightarrow> (hvac, hvac) step" where
  "update_hvac_fields data s =
     next_step (copy_if_present ''power'' (\<lambda>v h. h\<lparr>hvac_power := v\<rparr>) data s) (\<lambda>s.
     next_step (set_temp_step data s) (\<lambda>s.
     next_step (copy_if_present ''mode'' (\<lambda>v h. h\<lparr>mode := v\<rparr>) data s) (\<lambda>s.
     next_step (copy_if_present ''fan_speed'' (\<lambda>v h. h\<lparr>fan_speed := v\<rparr>) data s) (\<lambda>s.
     next_step (copy_if_present ''timer'' (\<lambda>v h. h\<lparr>timer := v\<rparr>) data s) (\<lambda>s.
     copy_if_present ''swing'' (\<lambda>v h. h\<lparr>swing := v\<rparr>) data s)))))"

text \<open>\<open>now\<close> is \<open>datetime.now().strftime('%Y-%m-%d %H:%M:%S')\<close>. The 200 body carries the
  settings as they are after the update.\<close>

definition update_hvac :: "string \<Rightarrow> json \<Rightarrow> server_state \<Rightarrow> hvac response \<times> server_state" where
  "update_hvac now data st =
     (case update_hvac_fields data (hvac_settings st) of
        Abort r h \<Rightarrow> (r, st\<lparr>hvac_settings := h\<rparr>)
      | Continue h \<Rightarrow>
          (let h' = h\<lparr>hvac_timestamp := Some now, source := Some ''web''\<rparr>
           in (Ok200 h', st\<lparr>hvac_settings := h'\<rparr>)))"

subsection \<open>update_schedule\<close>

text \<open>
  \<open>datetime.strptime(s, '%H:%M')\<close> on a str. The format is compiled to the regular expression
  \<open>(2[0-3]|[0-1]\d|\d):([0-5]\d|\d)\<close>, which must match the whole string: the leading zero
  of the hour and of the minute is optional, as the library's documentation says of
  \<open>%H\<close> and \<open>%M\<close> under \<open>strptime\<close>. \<open>None\<close> is the ValueError.
\<close>

definition parse_field :: "nat \<Rightarrow> string \<Rightarrow> nat option" where
  "parse_field bound s =
     (case s of
        [a] \<Rightarrow> if is_digit a then Some (digit_val a) else None
      | [a, b] \<Rightarrow>
          if is_digit a \<and> is_digit b \<and> 10 * digit_val a + digit_val b < bound
          then Some (10 * digit_val a + digit_val b) else None
      | _ \<Rightarrow> None)"

definition strptime_HM :: "string \<Rightarrow> (nat \<times> nat) option" where
  "strptime_HM s =
     (case dropWhile (\<lambda>c. c \<noteq> CHR '':'') s of
        [] \<Rightarrow> None
      | _ # ms \<Rightarrow>
          (case parse_field 24 (takeWhile (\<lambda>c. c \<noteq> CHR '':'') s) of
             None \<Rightarrow> None
           | Some h \<Rightarrow>
               (case parse_field 60 ms of None \<Rightarrow> None | Some m \<Rightarrow> Some (h, m))))"

text \<open>\<open>if k in data: try: strptime(data[k], '%H:%M'); write(data[k]) except ValueError:
  return 400\<close>. A value that is not a str makes \<open>strptime\<close> raise TypeError, which only the
  outer clause catches.\<close>

definition time_step ::
  "string \<Rightarrow> validation_error \<Rightarrow> (string \<Rightarrow> schedule \<Rightarrow> schedule) \<Rightarrow> json \<Rightarrow> schedule \<Rightarrow>
   ('r, schedule) step" where
  "time_step k err write data s =
     (case py_in k data of
        Inl e \<Rightarrow> Abort (Err500 e) s
      | Inr False \<Rightarrow> Continue s
      | Inr True \<Rightarrow>
          (case py_getitem data k of
             Inl e \<Rightarrow> Abort (Err500 e) s
           | Inr (JStr t) \<Rightarrow>
               (case strptime_HM t of
                  None \<Rightarrow> Abort (Err400 err) s
                | Some _ \<Rightarrow> Continue (write t s))
           | Inr _ \<Rightarrow> Abort (Err500 TypeError) s))"

definition update_schedule_fields :: "json \<Rightarrow> schedule \<Rightarrow> (schedule, schedule) step" where
  "update_schedule_fields data s =
     next_step (copy_if_present ''enabled'' (\<lambda>v c. c\<lparr>enabled := py_bool v\<rparr>) data s) (\<lambda>s.
     next_step (time_step ''start_time'' InvalidStartTime (\<lambda>t c. c\<lparr>start_time := t\<rparr>) data s) (\<lambda>s.
     time_step ''end_time'' InvalidEndTime (\<lambda>t c. c\<lparr>end_time := t\<rparr>) data s))"

definition update_schedule ::
  "string \<Rightarrow> json \<Rightarrow> server_state \<Rightarrow> schedule response \<times> server_state" where
  "update_schedule now data st =
     (case update_schedule_fields data (schedule_settings st) of
        Abort r c \<Rightarrow> (r, st\<lparr>schedule_settings := c\<rparr>)
      | Continue c \<Rightarrow>
          (let c' = c\<lparr>schedule_timestamp := Some now\<rparr>
           in (Ok200 c', st\<lparr>schedule_settings := c'\<rparr>)))"

subsection \<open>get_schedule_status\<close>

text \<open>\<open>now.strftime('%H:%M')\<close>: two digits each, zero padded.\<close>

definition digit_char :: "nat \<Rightarrow> char" where
  "digit_char d = char_of (48 + d)"

definition two_digits :: "nat \<Rightarrow> string" where
  "two_digits n = [digit_char (n div 10), digit_char (n mod 10)]"

definition strftime_HM :: "nat \<Rightarrow> nat \<Rightarrow> string" where
  "strftime_HM h m = two_digits h @ '':'' @ two_digits m"

text \<open>The reply: \<open>schedule_active\<close> false with \<open>should_be_on\<close> \<open>None\<close>, or \<open>schedule_active\<close>
  true with \<open>should_be_on\<close>, \<open>current_time\<close>, \<open>start_time\<close> and \<open>end_time\<close>.\<close>

datatype schedule_status =
    ScheduleDisabled
  | ScheduleActive (should_be_on: bool) (current_time: string) (status_start: string)
      (status_end: string)

text \<open>\<open>hour\<close> and \<open>minute\<close> are those of \<open>datetime.now()\<close>. The three times are compared as
  Python compares strings: lexicographically, character by character.\<close>

definition get_schedule_status :: "nat \<Rightarrow> nat \<Rightarrow> server_state \<Rightarrow> schedule_status" where
  "get_schedule_status hour minute st =
     (if \<not> enabled (schedule_settings st) then ScheduleDisabled
      else
        (let current_time = strftime_HM hour minute;
             start = start_time (schedule_settings st);
             end = end_time (schedule_settings st);
             should_be_on =
               (if start > end then current_time \<ge> start \<or> current_time < end
                else start \<le> current_time \<and> current_time < end)
         in ScheduleActive should_be_on current_time start end))"

subsection \<open>receive_data\<close>

text \<open>\<open>write(hvac.get(k))\<close>.\<close>

definition store_get ::
  "string \<Rightarrow> (json \<Rightarrow> hvac \<Rightarrow> hvac) \<Rightarrow> json \<Rightarrow> hvac \<Rightarrow> ('r, hvac) step" where
  "store_get k write snapshot s =
     (case py_get snapshot k of
        Inl e \<Rightarrow> Abort (Err500 e) s
      | Inr v \<Rightarrow> Continue (write v s))"

definition store_snapshot :: "string \<Rightarrow> json \<Rightarrow> hvac \<Rightarrow> ('r, hvac) step" where
  "store_snapshot now snapshot s =
     next_step (store_get ''power'' (\<lambda>v h. h\<lparr>hvac_power := v\<rparr>) snapshot s) (\<lambda>s.
     next_step (store_get ''set_temp'' (\<lambda>v h. h\<lparr>set_temp := v\<rparr>) snapshot s) (\<lambda>s.
     next_step (store_get ''mode'' (\<lambda>v h. h\<lparr>mode := v\<rparr>) snapshot s) (\<lambda>s.
     next_step (store_get ''fan_speed'' (\<lambda>v h. h\<lparr>fan_speed := v\<rparr>) snapshot s) (\<lambda>s.
     next_step (store_get ''timer'' (\<lambda>v h. h\<lparr>timer := v\<rparr>) snapshot s) (\<lambda>s.
     next_step (store_get ''swing'' (\<lambda>v h. h\<lparr>swing := v\<rparr>) snapshot s) (\<lambda>s.
     Continue (s\<lparr>hvac_timestamp := Some now, source := Some ''arduino''\<rparr>)))))))"

text \<open>\<open>if 'hvac' in data: hvac = data['hvac']; ...\<close>.\<close>

definition hvac_step :: "string \<Rightarrow> json \<Rightarrow> hvac \<Rightarrow> ('r, hvac) step" where
  "hvac_step now data s =
     (case py_in ''hvac'' data of
        Inl e \<Rightarrow> Abort (Err500 e) s
      | Inr False \<Rightarrow> Continue s
      | Inr True \<Rightarrow>
          (case py_getitem data ''hvac'' of
             Inl e \<Rightarrow> Abort (Err500 e) s
           | Inr snapshot \<Rightarrow> store_snapshot now snapshot s))"

text \<open>\<open>str(n)\<close> for an int.\<close>

fun show_nat :: "nat \<Rightarrow> string" where
  "show_nat n =
     (if n < 10 then [digit_char n] else show_nat (n div 10) @ [digit_char (n mod 10)])"

declare show_nat.simps [simp del]

definition show_int :: "int \<Rightarrow> string" where
  "show_int n = (if n < 0 then CHR ''-'' # show_nat (nat (- n)) else show_nat (nat n))"

text \<open>The text \<open>writerow\<close> writes for a value: nothing for \<open>None\<close>, a str as it is, and \<open>str(v)\<close>
  for any other value. \<open>str\<close> of a float, a list or a dict is the parameter \<open>py_str\<close>: the
  digits Python prints for a float are not modelled. (An int of more than 4300 digits, whose
  \<open>str\<close> raises, does not pass \<open>json.loads\<close>.)\<close>

definition cell_text :: "(json \<Rightarrow> string) \<Rightarrow> json \<Rightarrow> string" where
  "cell_text py_str v =
     (case v of
        JNull \<Rightarrow> []
      | JStr s \<Rightarrow> s
      | JBool b \<Rightarrow> (if b then ''True'' else ''False'')
      | JInt n \<Rightarrow> show_int n
      | _ \<Rightarrow> py_str v)"

text \<open>\<open>open(DATA_FILE, 'a')\<close> creates a missing file; \<open>writerow\<close> adds one record at the end.\<close>

definition append_row :: "string list \<Rightarrow> storage \<Rightarrow> storage" where
  "append_row r f = f\<lparr>rows := Some ((case rows f of None \<Rightarrow> [] | Some rs \<Rightarrow> rs) @ [r])\<rparr>"

text \<open>The 200 body carries the timestamp.\<close>

definition receive_data ::
  "(json \<Rightarrow> string) \<Rightarrow> string \<Rightarrow> json \<Rightarrow> server_state \<Rightarrow> string response \<times> server_state" where
  "receive_data py_str now data st =
     (case py_get data ''temperature'' of
        Inl e \<Rightarrow> (Err500 e, st)
      | Inr t \<Rightarrow>
          (case py_get data ''humidity'' of
             Inl e \<Rightarrow> (Err500 e, st)
           | Inr h \<Rightarrow>
               if t = JNull \<or> h = JNull then (Err400 MissingTemperatureOrHumidity, st)
               else
                 (let st1 = st\<lparr>latest_data :=
                              \<lparr>temperature = t, humidity = h, timestamp = Some now\<rparr>\<rparr>
                  in case hvac_step now data (hvac_settings st1) of
                       Abort r s \<Rightarrow> (r, st1\<lparr>hvac_settings := s\<rparr>)
                     | Continue s \<Rightarrow>
                         (let st2 = st1\<lparr>hvac_settings := s\<rparr>
                          in if write_fails (data_file st2) then (Err500 OSError, st2)
                             else (Ok200 now,
                                   st2\<lparr>data_file :=
                                         append_row [now, cell_text py_str t, cell_text py_str h]
                                           (data_file st2)\<rparr>)))))"

subsection \<open>get_history\<close>

text \<open>The file is opened for reading in text mode with the default \<open>newline\<close>, which turns
  every \<open>\r\n\<close> and every remaining \<open>\r\<close> into \<open>\n\<close>, also inside a quoted cell.\<close>

fun universal_newlines :: "string \<Rightarrow> string" where
  "universal_newlines [] = []"
| "universal_newlines [c] = [if c = CHR 0x0D then CHR 0x0A else c]"
| "universal_newlines (c # d # ds) =
     (if c = CHR 0x0D \<and> d = CHR 0x0A then CHR 0x0A # universal_newlines ds
      else if c = CHR 0x0D then CHR 0x0A # universal_newlines (d # ds)
      else c # universal_newlines (d # ds))"

text \<open>\<open>csv.reader\<close>: the records with their cells as read; a cell longer than the field size
  limit raises \<open>csv.Error\<close>.\<close>

definition field_size_limit :: nat where
  "field_size_limit = 131072"

definition csv_reader :: "string list list \<Rightarrow> py_exception + string list list" where
  "csv_reader rs =
     (let parsed = map (map universal_newlines) rs
      in if list_ex (list_ex (\<lambda>c. field_size_limit < length c)) parsed then Inl CsvError
         else Inr parsed)"

text \<open>\<open>csv.DictReader\<close>: the first record names the fields, every later record that is not
  empty becomes a dict, here the list of its items in the order they are assigned. A record
  longer than the header puts the rest, a list, under the key \<open>None\<close>; a shorter one gives the
  remaining keys the value \<open>None\<close>.\<close>

datatype csv_value = Text string | Rest "string list" | NoValue

definition dict_row :: "string list \<Rightarrow> string list \<Rightarrow> (string option \<times> csv_value) list" where
  "dict_row fieldnames r =
     zip (map Some fieldnames) (map Text r) @
     (if length fieldnames < length r then [(None, Rest (drop (length fieldnames) r))]
      else map (\<lambda>k. (Some k, NoValue)) (drop (length r) fieldnames))"

definition dict_reader :: "string list list \<Rightarrow> (string option \<times> csv_value) list list" where
  "dict_reader rs =
     (case rs of
        [] \<Rightarrow> []
      | fieldnames # rest \<Rightarrow> map (dict_row fieldnames) (filter (\<lambda>r. r \<noteq> []) rest))"

text \<open>\<open>xs[-n:]\<close> for a positive \<open>n\<close>: the last \<open>n\<close> elements, all of them when there are fewer.\<close>

definition last_n :: "nat \<Rightarrow> 'a list \<Rightarrow> 'a list" where
  "last_n n xs = drop (length xs - n) xs"

text \<open>\<open>jsonify\<close> sorts the keys of every dict, and comparing the key \<open>None\<close> with a str raises
  TypeError: a dict passes when it does not hold both the key \<open>None\<close> and a str key.\<close>

definition sortable_keys :: "(string option \<times> csv_value) list \<Rightarrow> bool" where
  "sortable_keys d =
     (\<not> (list_ex (\<lambda>item. fst item = None) d \<and> list_ex (\<lambda>item. fst item \<noteq> None) d))"

text \<open>The handler has no \<open>try\<close>: an OSError raised by \<open>open\<close>, a \<open>csv.Error\<close> raised while the
  file is read and a TypeError raised by \<open>jsonify\<close> leave it.\<close>

definition get_history ::
  "server_state \<Rightarrow> (string option \<times> csv_value) list list response" where
  "get_history st =
     (case rows (data_file st) of
        None \<Rightarrow> Ok200 (rev (last_n 50 []))
      | Some rs \<Rightarrow>
          if read_fails (data_file st) then Unhandled OSError
          else
            (case csv_reader rs of
               Inl e \<Rightarrow> Unhandled e
             | Inr history \<Rightarrow>
                 (let result = rev (last_n 50 (dict_reader history))
                  in if list_all sortable_keys result then Ok200 result
                     else Unhandled TypeError)))"

subsection \<open>Notions the properties are stated with\<close>

text \<open>The state a step carries, whether it falls through or leaves the handler.\<close>

fun step_state :: "('r, 's) step \<Rightarrow> 's" where
  "step_state (Continue s) = s"
| "step_state (Abort r s) = s"

text \<open>The range invariant of the settings record: \<open>set_temp\<close> is unset, or an integer within
  16 and 30.\<close>

definition set_temp_in_range :: "hvac \<Rightarrow> bool" where
  "set_temp_in_range h =
     (case set_temp h of JNull \<Rightarrow> True | JInt n \<Rightarrow> 16 \<le> n \<and> n \<le> 30 | _ \<Rightarrow> False)"

text \<open>What \<open>receive_data\<close> leaves in \<open>hvac_settings\<close>, \<open>latest_data\<close> and the file for a request
  with the items \<open>kvs\<close> and a snapshot with the items \<open>items\<close>.\<close>

definition reported_hvac :: "string \<Rightarrow> (string \<times> json) list \<Rightarrow> hvac" where
  "reported_hvac now items =
     \<lparr>hvac_power = dict_get items ''power'', set_temp = dict_get items ''set_temp'',
      mode = dict_get items ''mode'', fan_speed = dict_get items ''fan_speed'',
      timer = dict_get items ''timer'', swing = dict_get items ''swing'',
      hvac_timestamp = Some now, source = Some ''arduino''\<rparr>"

definition new_reading :: "string \<Rightarrow> (string \<times> json) list \<Rightarrow> latest" where
  "new_reading now kvs =
     \<lparr>temperature = dict_get kvs ''temperature'', humidity = dict_get kvs ''humidity'',
      timestamp = Some now\<rparr>"

definition reading_row :: "(json \<Rightarrow> string) \<Rightarrow> string \<Rightarrow> (string \<times> json) list \<Rightarrow> string list" where
  "reading_row py_str now kvs =
     [now, cell_text py_str (dict_get kvs ''temperature''),
      cell_text py_str (dict_get kvs ''humidity'')]"





text \<open>Every cell of the records is within the field size limit when read.\<close>




text \<open>A time of day in minutes since midnight.\<close>

definition minute_of_day :: "nat \<Rightarrow> nat \<Rightarrow> nat" where
  "minute_of_day h m = 60 * h + m"

text \<open>A 24-hour \<open>HH:MM\<close> string: two digits, a colon, two digits, the hour below 24 and the
  minute below 60.\<close>

definition valid_HHMM :: "string \<Rightarrow> bool" where
  "valid_HHMM s =
     (case s of
        [a, b, c, d, e] \<Rightarrow>
          is_digit a \<and> is_digit b \<and> c = CHR '':'' \<and> is_digit d \<and> is_digit e \<and>
          10 * digit_val a + digit_val b < 24 \<and> 10 * digit_val d + digit_val e < 60
      | _ \<Rightarrow> False)"

text \<open>What the check with \<open>strptime\<close> maintains of the stored times: \<open>strptime\<close> accepts each.\<close>

definition times_parse :: "schedule \<Rightarrow> bool" where
  "times_parse c = (strptime_HM (start_time c) \<noteq> None \<and> strptime_HM (end_time c) \<noteq> None)"

section \<open>Properties\<close>

subsection \<open>Steps\<close>

lemma next_step_preserves:
  assumes "P (step_state m)" and "\<And>s. P s \<Longrightarrow> P (step_state (f s))"
  shows "P (step_state (next_step m f))"
  using assms by (cases m) (simp_all add: next_step_def)

lemma copy_if_present_preserves:
  assumes "P s" and "\<And>v. P (write v s)"
  shows "P (step_state (copy_if_present k write data s))"
  using assms by (simp add: copy_if_present_def split: sum.split bool.split)

lemma copy_if_present_obj:
  "copy_if_present k write (JObj kvs) s =
     (case map_of kvs k of None \<Rightarrow> Continue s | Some v \<Rightarrow> Continue (write v s))"
  by (simp add: copy_if_present_def py_in_def py_getitem_def split: option.split)

subsection \<open>The web command\<close>

lemma set_temp_step_in_range:
  assumes "set_temp_in_range s"
  shows "set_temp_in_range (step_state (set_temp_step data s))"
  using assms
  by (simp add: set_temp_step_def set_temp_in_range_def split: sum.split bool.split)

lemma update_hvac_fields_in_range:
  assumes "set_temp_in_range s"
  shows "set_temp_in_range (step_state (update_hvac_fields data s))"
  unfolding update_hvac_fields_def
  using assms
  by (intro next_step_preserves [where P = set_temp_in_range]
        copy_if_present_preserves [where P = set_temp_in_range] set_temp_step_in_range)
     (simp_all add: set_temp_in_range_def)

lemma update_hvac_state:
  "hvac_settings (snd (update_hvac now data st)) =
     (case update_hvac_fields data (hvac_settings st) of
        Abort r h \<Rightarrow> h
      | Continue h \<Rightarrow> h\<lparr>hvac_timestamp := Some now, source := Some ''web''\<rparr>)"
  by (simp add: update_hvac_def Let_def split: step.split)

lemma update_hvac_in_range:
  assumes "set_temp_in_range (hvac_settings st)"
  shows "set_temp_in_range (hvac_settings (snd (update_hvac now data st)))"
  using update_hvac_fields_in_range [OF assms, of data]
  by (cases "update_hvac_fields data (hvac_settings st)")
     (simp_all add: update_hvac_state set_temp_in_range_def)

text \<open>A request whose \<open>set_temp\<close> converts to an integer outside 16..30 is answered with the
  400, after the \<open>power\<close> of the request, if it has one, has been written; nothing else is.\<close>

lemma set_temp_step_out_of_range:
  assumes "map_of kvs ''set_temp'' = Some v" and "py_int v = Inr n" and "\<not> (16 \<le> n \<and> n \<le> 30)"
  shows "set_temp_step (JObj kvs) s = Abort (Err400 TemperatureOutOfRange) s"
  using assms by (simp add: set_temp_step_def py_in_def py_getitem_def)

lemma update_hvac_fields_out_of_range:
  assumes "map_of kvs ''set_temp'' = Some v" and "py_int v = Inr n" and "\<not> (16 \<le> n \<and> n \<le> 30)"
  shows "update_hvac_fields (JObj kvs) s =
     Abort (Err400 TemperatureOutOfRange)
       (case map_of kvs ''power'' of None \<Rightarrow> s | Some p \<Rightarrow> s\<lparr>hvac_power := p\<rparr>)"
  by (cases "map_of kvs ''power''")
     (simp_all add: update_hvac_fields_def copy_if_present_obj next_step_def
        set_temp_step_out_of_range [OF assms])

text \<open>A request whose \<open>set_temp\<close> converts to an integer outside 16..30 is answered with the
  400, after the \<open>power\<close> of the request, if it has one, has been written; nothing else is.\<close>

lemma update_hvac_out_of_range:
  assumes "map_of kvs ''set_temp'' = Some v" and "py_int v = Inr n" and "\<not> (16 \<le> n \<and> n \<le> 30)"
  shows "update_hvac now (JObj kvs) st =
     (Err400 TemperatureOutOfRange,
      st\<lparr>hvac_settings :=
           (case map_of kvs ''power'' of
              None \<Rightarrow> hvac_settings st
            | Some p \<Rightarrow> (hvac_settings st)\<lparr>hvac_power := p\<rparr>)\<rparr>)"
  unfolding update_hvac_def update_hvac_fields_out_of_range [OF assms] by simp

subsection \<open>The device's reading\<close>

lemma store_snapshot_obj:
  "store_snapshot now (JObj items) s = Continue (reported_hvac now items)"
  by (simp add: store_snapshot_def store_get_def next_step_def py_get_def reported_hvac_def)

lemma hvac_step_obj:
  "hvac_step now (JObj kvs) s =
     (case map_of kvs ''hvac'' of
        None \<Rightarrow> Continue s
      | Some snapshot \<Rightarrow> store_snapshot now snapshot s)"
  by (simp add: hvac_step_def py_in_def py_getitem_def split: option.split)

lemma receive_data_missing:
  assumes "dict_get kvs ''temperature'' = JNull \<or> dict_get kvs ''humidity'' = JNull"
  shows "receive_data py_str now (JObj kvs) st = (Err400 MissingTemperatureOrHumidity, st)"
  using assms by (auto simp add: receive_data_def py_get_def)

lemma receive_data_snapshot:
  assumes "dict_get kvs ''temperature'' \<noteq> JNull" and "dict_get kvs ''humidity'' \<noteq> JNull"
    and "map_of kvs ''hvac'' = Some (JObj items)"
  shows "receive_data py_str now (JObj kvs) st =
     (let st2 = st\<lparr>latest_data := new_reading now kvs,
                    hvac_settings := reported_hvac now items\<rparr>
      in if write_fails (data_file st) then (Err500 OSError, st2)
         else (Ok200 now,
               st2\<lparr>data_file := append_row (reading_row py_str now kvs) (data_file st)\<rparr>))"
  using assms
  by (simp add: receive_data_def py_get_def hvac_step_obj store_snapshot_obj Let_def
      new_reading_def reading_row_def)

lemma receive_data_no_snapshot:
  assumes "dict_get kvs ''temperature'' \<noteq> JNull" and "dict_get kvs ''humidity'' \<noteq> JNull"
    and "map_of kvs ''hvac'' = None"
  shows "receive_data py_str now (JObj kvs) st =
     (let st2 = st\<lparr>latest_data := new_reading now kvs\<rparr>
      in if write_fails (data_file st) then (Err500 OSError, st2)
         else (Ok200 now,
               st2\<lparr>data_file := append_row (reading_row py_str now kvs) (data_file st)\<rparr>))"
  using assms
  by (simp add: receive_data_def py_get_def hvac_step_obj Let_def
      new_reading_def reading_row_def)

lemmas update_hvac_eval =
  update_hvac_def update_hvac_fields_def next_step_def copy_if_present_obj set_temp_step_def
  py_in_def py_getitem_def py_int_def initial_state_def initial_hvac_def Let_def

lemmas receive_data_eval =
  receive_data_def hvac_step_obj store_snapshot_obj reported_hvac_def py_get_def dict_get_def
  append_row_def initial_state_def initial_hvac_def initial_latest_def init_csv_def Let_def

text \<open>
  C1 (as amended). A web command keeps \<open>set_temp\<close> within 16..30: from a settings record whose
  \<open>set_temp\<close> is unset or within the range, \<open>update_hvac\<close> leads to such a record again, whatever
  the request and whether it is answered with 200, 400 or 500; and a request whose \<open>set_temp\<close>
  converts to an integer outside the range is answered with the 400 and leaves the stored
  \<open>set_temp\<close> as it was. A reading posted by the device with an \<open>hvac\<close> snapshot stores the
  snapshot's \<open>set_temp\<close> as it is, with no range check.
\<close>

theorem web_command_keeps_set_temp_in_range:
  "(set_temp_in_range (hvac_settings st) \<longrightarrow>
      set_temp_in_range (hvac_settings (snd (update_hvac now data st)))) \<and>
   (map_of kvs ''set_temp'' = Some v \<and> py_int v = Inr n \<and> \<not> (16 \<le> n \<and> n \<le> 30) \<longrightarrow>
      fst (update_hvac now (JObj kvs) st) = Err400 TemperatureOutOfRange \<and>
      set_temp (hvac_settings (snd (update_hvac now (JObj kvs) st))) = set_temp (hvac_settings st)) \<and>
   (dict_get req ''temperature'' \<noteq> JNull \<and> dict_get req ''humidity'' \<noteq> JNull \<and>
    map_of req ''hvac'' = Some (JObj items) \<longrightarrow>
      set_temp (hvac_settings (snd (receive_data py_str now (JObj req) st))) = dict_get items ''set_temp'')"
proof (intro conjI impI)
  assume "set_temp_in_range (hvac_settings st)"
  then show "set_temp_in_range (hvac_settings (snd (update_hvac now data st)))"
    by (rule update_hvac_in_range)
next
  assume a: "map_of kvs ''set_temp'' = Some v \<and> py_int v = Inr n \<and> \<not> (16 \<le> n \<and> n \<le> 30)"
  then have r: "update_hvac now (JObj kvs) st =
     (Err400 TemperatureOutOfRange,
      st\<lparr>hvac_settings :=
           (case map_of kvs ''power'' of
              None \<Rightarrow> hvac_settings st
            | Some p \<Rightarrow> (hvac_settings st)\<lparr>hvac_power := p\<rparr>)\<rparr>)"
    using update_hvac_out_of_range [of kvs v n now st] by blast
  show "fst (update_hvac now (JObj kvs) st) = Err400 TemperatureOutOfRange"
    by (simp add: r)
  show "set_temp (hvac_settings (snd (update_hvac now (JObj kvs) st))) = set_temp (hvac_settings st)"
    by (simp add: r split: option.split)
next
  assume "dict_get req ''temperature'' \<noteq> JNull \<and> dict_get req ''humidity'' \<noteq> JNull \<and>
    map_of req ''hvac'' = Some (JObj items)"
  then show "set_temp (hvac_settings (snd (receive_data py_str now (JObj req) st))) =
    dict_get items ''set_temp''"
    by (simp add: receive_data_snapshot Let_def reported_hvac_def)
qed

theorem web_command_keeps_set_temp_in_range_witness:
  "set_temp_in_range (hvac_settings initial_state) \<and>
   set_temp_in_range (hvac_settings (snd (update_hvac ''2026-01-01 12:00:00''
     (JObj [(''set_temp'', JStr ''30'')]) initial_state))) \<and>
   map_of [(''mode'', JStr ''heat''), (''set_temp'', JInt 31)] ''set_temp'' = Some (JInt 31) \<and>
   py_int (JInt 31) = Inr 31 \<and> \<not> (16 \<le> (31::int) \<and> (31::int) \<le> 30) \<and>
   fst (update_hvac ''2026-01-01 12:00:00''
     (JObj [(''mode'', JStr ''heat''), (''set_temp'', JInt 31)]) initial_state) =
     Err400 TemperatureOutOfRange \<and>
   set_temp (hvac_settings (snd (update_hvac ''2026-01-01 12:00:00''
     (JObj [(''mode'', JStr ''heat''), (''set_temp'', JInt 31)]) initial_state))) = JNull \<and>
   set_temp (hvac_settings (snd (receive_data (\<lambda>v. []) ''2026-01-01 12:00:00''
     (JObj [(''temperature'', JInt 25), (''humidity'', JInt 40),
            (''hvac'', JObj [(''set_temp'', JInt 24)])]) initial_state))) = JInt 24"
proof -
  have h1: "set_temp_in_range (hvac_settings initial_state)"
    by (simp add: set_temp_in_range_def initial_state_def initial_hvac_def)
  have h2: "map_of [(''mode'', JStr ''heat''), (''set_temp'', JInt 31)] ''set_temp'' = Some (JInt 31) \<and>
    py_int (JInt 31) = Inr 31 \<and> \<not> (16 \<le> (31::int) \<and> (31::int) \<le> 30)"
    by (simp add: py_int_def)
  have h3: "dict_get [(''temperature'', JInt 25), (''humidity'', JInt 40),
              (''hvac'', JObj [(''set_temp'', JInt 24)])] ''temperature'' \<noteq> JNull \<and>
    dict_get [(''temperature'', JInt 25), (''humidity'', JInt 40),
              (''hvac'', JObj [(''set_temp'', JInt 24)])] ''humidity'' \<noteq> JNull \<and>
    map_of [(''temperature'', JInt 25), (''humidity'', JInt 40),
            (''hvac'', JObj [(''set_temp'', JInt 24)])] ''hvac'' = Some (JObj [(''set_temp'', JInt 24)])"
    by (simp add: dict_get_def)
  have h4: "set_temp (hvac_settings initial_state) = JNull"
    by (simp add: initial_state_def initial_hvac_def)
  have h5: "dict_get [(''set_temp'', JInt 24)] ''set_temp'' = JInt 24"
    by (simp add: dict_get_def)
  show ?thesis
    using web_command_keeps_set_temp_in_range
      [where st = initial_state and now = "''2026-01-01 12:00:00''"
         and data = "JObj [(''set_temp'', JStr ''30'')]"
         and kvs = "[(''mode'', JStr ''heat''), (''set_temp'', JInt 31)]"
         and v = "JInt 31" and n = 31
         and req = "[(''temperature'', JInt 25), (''humidity'', JInt 40),
            (''hvac'', JObj [(''set_temp'', JInt 24)])]"
         and items = "[(''set_temp'', JInt 24)]" and py_str = "\<lambda>v. []"]
      h1 h2 h3 h4 h5
    by simp
qed

theorem device_snapshot_set_temp_counterexample:
  "set_temp_in_range (hvac_settings initial_state) \<and>
   fst (receive_data (\<lambda>v. []) ''2026-01-01 12:00:00''
     (JObj [(''temperature'', JInt 25), (''humidity'', JInt 40),
            (''hvac'', JObj [(''set_temp'', JInt 99)])]) initial_state) =
     Ok200 ''2026-01-01 12:00:00'' \<and>
   set_temp (hvac_settings (snd (receive_data (\<lambda>v. []) ''2026-01-01 12:00:00''
     (JObj [(''temperature'', JInt 25), (''humidity'', JInt 40),
            (''hvac'', JObj [(''set_temp'', JInt 99)])]) initial_state))) = JInt 99 \<and>
   \<not> set_temp_in_range (hvac_settings (snd (receive_data (\<lambda>v. []) ''2026-01-01 12:00:00''
     (JObj [(''temperature'', JInt 25), (''humidity'', JInt 40),
            (''hvac'', JObj [(''set_temp'', JInt 99)])]) initial_state)))"
  by (simp add: receive_data_eval set_temp_in_range_def)

text \<open>
  C2. A web command with \<open>power\<close> set to on and \<open>set_temp\<close> 31 is answered with the 400 of the
  range check, and the settings record is not as it was before the call: its \<open>power\<close>, unset
  before, is on. The other fields are as before.
\<close>

theorem update_hvac_rejected_after_power_written:
  "update_hvac ''2026-01-01 12:00:00''
     (JObj [(''power'', JStr ''on''), (''set_temp'', JInt 31), (''mode'', JStr ''cool'')])
     initial_state =
     (Err400 TemperatureOutOfRange,
      initial_state\<lparr>hvac_settings := initial_hvac\<lparr>hvac_power := JStr ''on''\<rparr>\<rparr>) \<and>
   hvac_power (hvac_settings initial_state) = JNull"
  by (simp add: update_hvac_eval)

text \<open>
  C3 (as amended). For every ingest request that passes the temperature and humidity check
  and carries an \<open>hvac\<close> snapshot (an object), \<open>receive_data\<close> replaces the whole settings record
  by the snapshot: every field takes the snapshot's value for it, \<open>None\<close> when the snapshot
  lacks the field, and the timestamp and the source are set. No field keeps its prior value.
\<close>

theorem device_snapshot_replaces_settings:
  assumes "dict_get kvs ''temperature'' \<noteq> JNull" and "dict_get kvs ''humidity'' \<noteq> JNull"
    and "map_of kvs ''hvac'' = Some (JObj items)"
  shows "hvac_settings (snd (receive_data py_str now (JObj kvs) st)) = reported_hvac now items"
  using assms by (simp add: receive_data_snapshot Let_def)

theorem device_snapshot_replaces_settings_witness:
  "dict_get [(''temperature'', JInt 25), (''humidity'', JInt 40),
             (''hvac'', JObj [(''set_temp'', JInt 24)])] ''temperature'' \<noteq> JNull \<and>
   dict_get [(''temperature'', JInt 25), (''humidity'', JInt 40),
             (''hvac'', JObj [(''set_temp'', JInt 24)])] ''humidity'' \<noteq> JNull \<and>
   map_of [(''temperature'', JInt 25), (''humidity'', JInt 40),
           (''hvac'', JObj [(''set_temp'', JInt 24)])] ''hvac'' =
     Some (JObj [(''set_temp'', JInt 24)]) \<and>
   hvac_settings (snd (receive_data (\<lambda>v. []) ''2026-01-01 12:00:00''
     (JObj [(''temperature'', JInt 25), (''humidity'', JInt 40),
            (''hvac'', JObj [(''set_temp'', JInt 24)])])
     (initial_state\<lparr>hvac_settings := initial_hvac\<lparr>mode := JStr ''cool''\<rparr>\<rparr>))) =
     \<lparr>hvac_power = JNull, set_temp = JInt 24, mode = JNull, fan_speed = JNull, timer = JNull,
      swing = JNull, hvac_timestamp = Some ''2026-01-01 12:00:00'',
      source = Some ''arduino''\<rparr>"
proof -
  have h1: "dict_get [(''temperature'', JInt 25), (''humidity'', JInt 40),
             (''hvac'', JObj [(''set_temp'', JInt 24)])] ''temperature'' \<noteq> JNull"
    and h2: "dict_get [(''temperature'', JInt 25), (''humidity'', JInt 40),
             (''hvac'', JObj [(''set_temp'', JInt 24)])] ''humidity'' \<noteq> JNull"
    and h3: "map_of [(''temperature'', JInt 25), (''humidity'', JInt 40),
           (''hvac'', JObj [(''set_temp'', JInt 24)])] ''hvac'' =
     Some (JObj [(''set_temp'', JInt 24)])"
    by (simp_all add: dict_get_def)
  have r: "reported_hvac ''2026-01-01 12:00:00'' [(''set_temp'', JInt 24)] =
     \<lparr>hvac_power = JNull, set_temp = JInt 24, mode = JNull, fan_speed = JNull, timer = JNull,
      swing = JNull, hvac_timestamp = Some ''2026-01-01 12:00:00'',
      source = Some ''arduino''\<rparr>"
    by (simp add: reported_hvac_def dict_get_def)
  show ?thesis
    using device_snapshot_replaces_settings [OF h1 h2 h3,
        where now = "''2026-01-01 12:00:00''" and py_str = "\<lambda>v. []"
          and st = "initial_state\<lparr>hvac_settings := initial_hvac\<lparr>mode := JStr ''cool''\<rparr>\<rparr>"]
      h1 h2 h3 r
    by simp
qed

text \<open>The settings hold mode cool after a web command; the device then posts a reading with
  a snapshot that has \<open>set_temp\<close> only: the mode is \<open>None\<close> afterwards.\<close>

theorem device_snapshot_resets_absent_field_counterexample:
  "mode (hvac_settings (snd (update_hvac ''2026-01-01 11:59:00''
      (JObj [(''mode'', JStr ''cool'')]) initial_state))) = JStr ''cool'' \<and>
   map_of [(''set_temp'', JInt 24)] ''mode'' = None \<and>
   fst (receive_data (\<lambda>v. []) ''2026-01-01 12:00:00''
     (JObj [(''temperature'', JInt 25), (''humidity'', JInt 40),
            (''hvac'', JObj [(''set_temp'', JInt 24)])])
     (snd (update_hvac ''2026-01-01 11:59:00''
        (JObj [(''mode'', JStr ''cool'')]) initial_state))) = Ok200 ''2026-01-01 12:00:00'' \<and>
   mode (hvac_settings (snd (receive_data (\<lambda>v. []) ''2026-01-01 12:00:00''
     (JObj [(''temperature'', JInt 25), (''humidity'', JInt 40),
            (''hvac'', JObj [(''set_temp'', JInt 24)])])
     (snd (update_hvac ''2026-01-01 11:59:00''
        (JObj [(''mode'', JStr ''cool'')]) initial_state))))) = JNull"
  by (simp add: update_hvac_eval receive_data_eval)

text \<open>
  C8. An ingest request that lacks the humidity field, or the temperature field, is answered
  with the 400 validation error, and the state after the call is the state before it: the
  latest reading and the log are as they were.
\<close>

theorem ingest_missing_field_rejected:
  assumes "map_of kvs ''humidity'' = None \<or> map_of kvs ''temperature'' = None"
  shows "fst (receive_data py_str now (JObj kvs) st) = Err400 MissingTemperatureOrHumidity \<and>
         snd (receive_data py_str now (JObj kvs) st) = st \<and>
         latest_data (snd (receive_data py_str now (JObj kvs) st)) = latest_data st \<and>
         data_file (snd (receive_data py_str now (JObj kvs) st)) = data_file st"
proof -
  from assms have "dict_get kvs ''temperature'' = JNull \<or> dict_get kvs ''humidity'' = JNull"
    by (auto simp add: dict_get_def)
  then show ?thesis by (simp add: receive_data_missing)
qed

theorem ingest_missing_field_rejected_witness:
  "map_of [(''temperature'', JInt 25)] ''humidity'' = None \<and>
   fst (receive_data (\<lambda>v. []) ''2026-01-01 12:00:00'' (JObj [(''temperature'', JInt 25)]) initial_state) =
     Err400 MissingTemperatureOrHumidity \<and>
   snd (receive_data (\<lambda>v. []) ''2026-01-01 12:00:00'' (JObj [(''temperature'', JInt 25)]) initial_state) =
     initial_state \<and>
   latest_data (snd (receive_data (\<lambda>v. []) ''2026-01-01 12:00:00'' (JObj [(''temperature'', JInt 25)])
     initial_state)) = initial_latest \<and>
   rows (data_file (snd (receive_data (\<lambda>v. []) ''2026-01-01 12:00:00'' (JObj [(''temperature'', JInt 25)])
     initial_state))) = Some [csv_header]"
proof -
  have h: "map_of [(''temperature'', JInt 25)] ''humidity'' = None" by simp
  have i: "latest_data initial_state = initial_latest"
    "rows (data_file initial_state) = Some [csv_header]"
    by (simp_all add: initial_state_def init_csv_def)
  show ?thesis
    using ingest_missing_field_rejected [OF disjI1 [OF h],
        where now = "''2026-01-01 12:00:00''" and py_str = "\<lambda>v. []" and st = initial_state]
      h i
    by simp
qed

text \<open>
  C10. When the append to the CSV file fails during ingest, the caller is answered with the
  500, and the state returned holds the new reading in \<open>latest_data\<close> and, if the request
  carried an \<open>hvac\<close> snapshot, the snapshot in \<open>hvac_settings\<close>; the file is as it was. The
  in-memory state is written before the append is attempted and is not rolled back.
\<close>

theorem ingest_append_failure_keeps_memory_update:
  assumes "dict_get kvs ''temperature'' \<noteq> JNull" and "dict_get kvs ''humidity'' \<noteq> JNull"
    and "map_of kvs ''hvac'' = None \<or> map_of kvs ''hvac'' = Some (JObj items)"
    and "write_fails (data_file st)"
  shows "fst (receive_data py_str now (JObj kvs) st) = Err500 OSError \<and>
         latest_data (snd (receive_data py_str now (JObj kvs) st)) = new_reading now kvs \<and>
         hvac_settings (snd (receive_data py_str now (JObj kvs) st)) =
           (if map_of kvs ''hvac'' = None then hvac_settings st else reported_hvac now items) \<and>
         data_file (snd (receive_data py_str now (JObj kvs) st)) = data_file st \<and>
         schedule_settings (snd (receive_data py_str now (JObj kvs) st)) = schedule_settings st"
proof (cases "map_of kvs ''hvac''")
  case None
  with assms show ?thesis by (simp add: receive_data_no_snapshot Let_def)
next
  case (Some snapshot)
  with assms have "map_of kvs ''hvac'' = Some (JObj items)" by simp
  with assms show ?thesis by (simp add: receive_data_snapshot Let_def)
qed

theorem ingest_append_failure_keeps_memory_update_witness:
  "dict_get [(''temperature'', JInt 25), (''humidity'', JInt 40),
             (''hvac'', JObj [(''set_temp'', JInt 24)])] ''temperature'' \<noteq> JNull \<and>
   dict_get [(''temperature'', JInt 25), (''humidity'', JInt 40),
             (''hvac'', JObj [(''set_temp'', JInt 24)])] ''humidity'' \<noteq> JNull \<and>
   map_of [(''temperature'', JInt 25), (''humidity'', JInt 40),
           (''hvac'', JObj [(''set_temp'', JInt 24)])] ''hvac'' =
     Some (JObj [(''set_temp'', JInt 24)]) \<and>
   write_fails (data_file (initial_state\<lparr>data_file :=
     \<lparr>rows = Some [csv_header], read_fails = False, write_fails = True\<rparr>\<rparr>)) \<and>
   fst (receive_data (\<lambda>v. []) ''2026-01-01 12:00:00''
     (JObj [(''temperature'', JInt 25), (''humidity'', JInt 40),
            (''hvac'', JObj [(''set_temp'', JInt 24)])])
     (initial_state\<lparr>data_file :=
        \<lparr>rows = Some [csv_header], read_fails = False, write_fails = True\<rparr>\<rparr>)) =
     Err500 OSError \<and>
   latest_data (snd (receive_data (\<lambda>v. []) ''2026-01-01 12:00:00''
     (JObj [(''temperature'', JInt 25), (''humidity'', JInt 40),
            (''hvac'', JObj [(''set_temp'', JInt 24)])])
     (initial_state\<lparr>data_file :=
        \<lparr>rows = Some [csv_header], read_fails = False, write_fails = True\<rparr>\<rparr>))) =
     \<lparr>temperature = JInt 25, humidity = JInt 40, timestamp = Some ''2026-01-01 12:00:00''\<rparr> \<and>
   set_temp (hvac_settings (snd (receive_data (\<lambda>v. []) ''2026-01-01 12:00:00''
     (JObj [(''temperature'', JInt 25), (''humidity'', JInt 40),
            (''hvac'', JObj [(''set_temp'', JInt 24)])])
     (initial_state\<lparr>data_file :=
        \<lparr>rows = Some [csv_header], read_fails = False, write_fails = True\<rparr>\<rparr>)))) = JInt 24 \<and>
   rows (data_file (snd (receive_data (\<lambda>v. []) ''2026-01-01 12:00:00''
     (JObj [(''temperature'', JInt 25), (''humidity'', JInt 40),
            (''hvac'', JObj [(''set_temp'', JInt 24)])])
     (initial_state\<lparr>data_file :=
        \<lparr>rows = Some [csv_header], read_fails = False, write_fails = True\<rparr>\<rparr>)))) =
     Some [csv_header]"
proof -
  have h1: "dict_get [(''temperature'', JInt 25), (''humidity'', JInt 40),
             (''hvac'', JObj [(''set_temp'', JInt 24)])] ''temperature'' \<noteq> JNull"
    and h2: "dict_get [(''temperature'', JInt 25), (''humidity'', JInt 40),
             (''hvac'', JObj [(''set_temp'', JInt 24)])] ''humidity'' \<noteq> JNull"
    and h3: "map_of [(''temperature'', JInt 25), (''humidity'', JInt 40),
           (''hvac'', JObj [(''set_temp'', JInt 24)])] ''hvac'' =
     Some (JObj [(''set_temp'', JInt 24)])"
    and h4: "write_fails (data_file (initial_state\<lparr>data_file :=
     \<lparr>rows = Some [csv_header], read_fails = False, write_fails = True\<rparr>\<rparr>))"
    by (simp_all add: dict_get_def)
  have r: "new_reading ''2026-01-01 12:00:00'' [(''temperature'', JInt 25), (''humidity'', JInt 40),
             (''hvac'', JObj [(''set_temp'', JInt 24)])] =
     \<lparr>temperature = JInt 25, humidity = JInt 40, timestamp = Some ''2026-01-01 12:00:00''\<rparr>"
    "set_temp (reported_hvac ''2026-01-01 12:00:00'' [(''set_temp'', JInt 24)]) = JInt 24"
    by (simp_all add: new_reading_def reported_hvac_def dict_get_def)
  show ?thesis
    using ingest_append_failure_keeps_memory_update [OF h1 h2 disjI2 [OF h3] h4,
        where now = "''2026-01-01 12:00:00''" and py_str = "\<lambda>v. []"] h1 h2 h3 h4 r
    by simp
qed

subsection \<open>The schedule\<close>

lemma of_char_digit_char: "a < 10 \<Longrightarrow> of_char (digit_char a) = 48 + a"
  by (simp add: digit_char_def)

lemma digit_char_less:
  "a < 10 \<Longrightarrow> b < 10 \<Longrightarrow> (digit_char a < digit_char b) = (a < b)"
  by (simp add: less_char_def of_char_digit_char)

lemma digit_char_eq:
  assumes "a < 10" and "b < 10"
  shows "(digit_char a = digit_char b) = (a = b)"
proof
  assume "digit_char a = digit_char b"
  then have "(of_char (digit_char a) :: nat) = of_char (digit_char b)" by simp
  then show "a = b" by (simp add: of_char_digit_char assms)
qed simp

lemma digit_char_numerals:
  "digit_char 0 = CHR ''0''" "digit_char 1 = CHR ''1''" "digit_char 2 = CHR ''2''"
  "digit_char 3 = CHR ''3''" "digit_char 4 = CHR ''4''" "digit_char 5 = CHR ''5''"
  "digit_char 6 = CHR ''6''" "digit_char 7 = CHR ''7''" "digit_char 8 = CHR ''8''"
  "digit_char 9 = CHR ''9''"
  by (simp_all add: digit_char_def char_of_eq_iff)

lemma div_mod_10_less:
  "(n div 10 < k div 10 \<or> n div 10 = k div 10 \<and> n mod 10 < k mod 10) = (n < (k::nat))"
proof -
  define a b c d where "a = n div 10" and "b = n mod 10" and "c = k div 10" and "d = k mod 10"
  have "n = 10 * a + b" "k = 10 * c + d" "b < 10" "d < 10"
    by (simp_all add: a_def b_def c_def d_def)
  then have "(a < c \<or> a = c \<and> b < d) = (n < k)" by auto
  then show ?thesis by (simp add: a_def b_def c_def d_def)
qed

lemma div_mod_10_eq:
  "(n div 10 = k div 10 \<and> n mod 10 = k mod 10) = (n = (k::nat))"
proof
  assume h: "n div 10 = k div 10 \<and> n mod 10 = k mod 10"
  have "n = 10 * (n div 10) + n mod 10" by simp
  also have "\<dots> = 10 * (k div 10) + k mod 10" using h by simp
  also have "\<dots> = k" by simp
  finally show "n = k" .
qed auto

lemma two_digits_less:
  assumes "n < 100" and "k < 100"
  shows "(two_digits n < two_digits k) = (n < k)"
proof -
  have d: "n div 10 < 10" "k div 10 < 10" "n mod 10 < 10" "k mod 10 < 10"
    using assms by simp_all
  have "(two_digits n < two_digits k) =
        (n div 10 < k div 10 \<or> n div 10 = k div 10 \<and> n mod 10 < k mod 10)"
    using d by (simp add: two_digits_def digit_char_less digit_char_eq)
  also have "\<dots> = (n < k)" by (rule div_mod_10_less)
  finally show ?thesis .
qed

lemma two_digits_eq:
  assumes "n < 100" and "k < 100"
  shows "(two_digits n = two_digits k) = (n = k)"
proof -
  have d: "n div 10 < 10" "k div 10 < 10" "n mod 10 < 10" "k mod 10 < 10"
    using assms by simp_all
  have "(two_digits n = two_digits k) = (n div 10 = k div 10 \<and> n mod 10 = k mod 10)"
    using d by (simp add: two_digits_def digit_char_eq)
  also have "\<dots> = (n = k)" by (rule div_mod_10_eq)
  finally show ?thesis .
qed

text \<open>On zero-padded times the order of the strings is the order of the times.\<close>

lemma strftime_HM_less:
  assumes "h < 24" and "m < 60" and "h' < 24" and "m' < 60"
  shows "(strftime_HM h m < strftime_HM h' m') = (minute_of_day h m < minute_of_day h' m')"
proof -
  have b: "h < 100" "m < 100" "h' < 100" "m' < 100" using assms by simp_all
  have "(strftime_HM h m < strftime_HM h' m') =
        (two_digits h < two_digits h' \<or>
         two_digits h = two_digits h' \<and> two_digits m < two_digits m')"
    by (auto simp add: strftime_HM_def two_digits_def)
  also have "\<dots> = (h < h' \<or> h = h' \<and> m < m')"
    by (simp add: two_digits_less two_digits_eq b)
  also have "\<dots> = (minute_of_day h m < minute_of_day h' m')"
    using assms by (auto simp add: minute_of_day_def)
  finally show ?thesis .
qed

lemma strftime_HM_le:
  assumes "h < 24" and "m < 60" and "h' < 24" and "m' < 60"
  shows "(strftime_HM h m \<le> strftime_HM h' m') = (minute_of_day h m \<le> minute_of_day h' m')"
  using strftime_HM_less [OF assms(3,4,1,2)] by (simp add: not_less [symmetric])

lemma is_digit_digit_char: "d < 10 \<Longrightarrow> is_digit (digit_char d)"
  by (simp add: is_digit_def of_char_digit_char)

lemma digit_val_digit_char: "d < 10 \<Longrightarrow> digit_val (digit_char d) = d"
  by (simp add: digit_val_def of_char_digit_char)

text \<open>What \<open>strftime\<close> prints is a valid \<open>HH:MM\<close> string, and \<open>strptime\<close> reads it back.\<close>

lemma valid_HHMM_strftime:
  assumes "h < 24" and "m < 60"
  shows "valid_HHMM (strftime_HM h m)"
proof -
  have d: "h div 10 < 10" "h mod 10 < 10" "m div 10 < 10" "m mod 10 < 10"
    using assms by simp_all
  show ?thesis
    using assms d
    by (simp add: valid_HHMM_def strftime_HM_def two_digits_def is_digit_digit_char
        digit_val_digit_char)
qed

lemma is_digit_not_colon: "is_digit c \<Longrightarrow> c \<noteq> CHR '':''"
  by (auto simp add: is_digit_def)

lemma valid_HHMM_strptime:
  assumes "valid_HHMM s"
  shows "strptime_HM s \<noteq> None"
proof -
  from assms obtain a b c d e where s: "s = [a, b, c, d, e]"
    by (auto simp add: valid_HHMM_def split: list.splits)
  with assms show ?thesis
    by (simp add: valid_HHMM_def strptime_HM_def parse_field_def is_digit_not_colon)
qed

text \<open>The state \<open>update_schedule\<close> leaves, and the property of the stored times that the check
  with \<open>strptime\<close> maintains: each of them is a string \<open>strptime\<close> accepts.\<close>

lemma time_step_preserves:
  assumes "P s" and "\<And>t. strptime_HM t \<noteq> None \<Longrightarrow> P (write t s)"
  shows "P (step_state (time_step k err write data s))"
  using assms
  by (auto simp add: time_step_def split: sum.split bool.split json.split option.split)

lemma update_schedule_fields_times_parse:
  assumes "times_parse s"
  shows "times_parse (step_state (update_schedule_fields data s))"
  unfolding update_schedule_fields_def
  using assms
  by (intro next_step_preserves [where P = times_parse]
        copy_if_present_preserves [where P = times_parse]
        time_step_preserves [where P = times_parse])
     (simp_all add: times_parse_def)

lemma update_schedule_times_parse:
  assumes "times_parse (schedule_settings st)"
  shows "times_parse (schedule_settings (snd (update_schedule now data st)))"
  using update_schedule_fields_times_parse [OF assms, of data]
  by (cases "update_schedule_fields data (schedule_settings st)")
     (simp_all add: update_schedule_def Let_def times_parse_def)

text \<open>The status as the handler computes it, for any stored strings.\<close>

lemma get_schedule_status_disabled:
  "\<not> enabled (schedule_settings st) \<Longrightarrow> get_schedule_status hour minute st = ScheduleDisabled"
  by (simp add: get_schedule_status_def)

lemma get_schedule_status_enabled:
  "enabled (schedule_settings st) \<Longrightarrow>
   get_schedule_status hour minute st =
     ScheduleActive
       (if end_time (schedule_settings st) < start_time (schedule_settings st)
        then start_time (schedule_settings st) \<le> strftime_HM hour minute \<or>
             strftime_HM hour minute < end_time (schedule_settings st)
        else start_time (schedule_settings st) \<le> strftime_HM hour minute \<and>
             strftime_HM hour minute < end_time (schedule_settings st))
       (strftime_HM hour minute) (start_time (schedule_settings st))
       (end_time (schedule_settings st))"
  by (simp add: get_schedule_status_def Let_def)

lemmas schedule_eval =
  update_schedule_def update_schedule_fields_def next_step_def copy_if_present_obj time_step_def
  py_in_def py_getitem_def py_bool_def strptime_HM_def parse_field_def is_digit_def
  digit_val_def initial_state_def initial_schedule_def Let_def

lemmas status_eval =
  get_schedule_status_def strftime_HM_def two_digits_def digit_char_numerals Let_def

text \<open>
  C4. For every enabled schedule whose start and end are zero-padded \<open>HH:MM\<close> times, and every
  time of day, \<open>get_schedule_status\<close> reports the schedule active, with \<open>should_be_on\<close> as follows:
  if the start is not after the end, true exactly when the start is at or before now and now
  is before the end; if the start is after the end, true exactly when now is at or after the
  start or before the end. When the start equals the end, \<open>should_be_on\<close> is false at every
  time.
\<close>

theorem schedule_status_window:
  assumes "enabled (schedule_settings st)"
    and "start_time (schedule_settings st) = strftime_HM sh sm" and "sh < 24" and "sm < 60"
    and "end_time (schedule_settings st) = strftime_HM eh em" and "eh < 24" and "em < 60"
    and "hour < 24" and "minute < 60"
  shows "get_schedule_status hour minute st =
           ScheduleActive
             (if minute_of_day sh sm \<le> minute_of_day eh em
              then minute_of_day sh sm \<le> minute_of_day hour minute \<and>
                   minute_of_day hour minute < minute_of_day eh em
              else minute_of_day hour minute \<ge> minute_of_day sh sm \<or>
                   minute_of_day hour minute < minute_of_day eh em)
             (strftime_HM hour minute) (strftime_HM sh sm) (strftime_HM eh em) \<and>
         (minute_of_day sh sm = minute_of_day eh em \<longrightarrow>
            \<not> should_be_on (get_schedule_status hour minute st))"
proof -
  have gt: "(strftime_HM sh sm > strftime_HM eh em) =
            (\<not> minute_of_day sh sm \<le> minute_of_day eh em)"
    using strftime_HM_less [of eh em sh sm] assms by auto
  have r: "get_schedule_status hour minute st =
           ScheduleActive
             (if minute_of_day sh sm \<le> minute_of_day eh em
              then minute_of_day sh sm \<le> minute_of_day hour minute \<and>
                   minute_of_day hour minute < minute_of_day eh em
              else minute_of_day hour minute \<ge> minute_of_day sh sm \<or>
                   minute_of_day hour minute < minute_of_day eh em)
             (strftime_HM hour minute) (strftime_HM sh sm) (strftime_HM eh em)"
    using assms
    by (simp add: get_schedule_status_def Let_def gt strftime_HM_le strftime_HM_less)
  show ?thesis
    unfolding r by simp
qed

theorem schedule_status_window_witness:
  "enabled (schedule_settings (initial_state\<lparr>schedule_settings :=
      initial_schedule\<lparr>enabled := True\<rparr>\<rparr>)) \<and>
   start_time (schedule_settings (initial_state\<lparr>schedule_settings :=
      initial_schedule\<lparr>enabled := True\<rparr>\<rparr>)) = strftime_HM 23 0 \<and>
   end_time (schedule_settings (initial_state\<lparr>schedule_settings :=
      initial_schedule\<lparr>enabled := True\<rparr>\<rparr>)) = strftime_HM 5 0 \<and>
   get_schedule_status 4 59 (initial_state\<lparr>schedule_settings :=
      initial_schedule\<lparr>enabled := True\<rparr>\<rparr>) =
     ScheduleActive True ''04:59'' ''23:00'' ''05:00'' \<and>
   get_schedule_status 5 0 (initial_state\<lparr>schedule_settings :=
      initial_schedule\<lparr>enabled := True\<rparr>\<rparr>) =
     ScheduleActive False ''05:00'' ''23:00'' ''05:00'' \<and>
   minute_of_day 10 0 = minute_of_day 10 0 \<and>
   \<not> should_be_on (get_schedule_status 10 0 (initial_state\<lparr>schedule_settings :=
      \<lparr>enabled = True, start_time = strftime_HM 10 0, end_time = strftime_HM 10 0,
       schedule_timestamp = None\<rparr>\<rparr>))"
proof -
  let ?night = "initial_state\<lparr>schedule_settings := initial_schedule\<lparr>enabled := True\<rparr>\<rparr>"
  let ?empty = "initial_state\<lparr>schedule_settings :=
      \<lparr>enabled = True, start_time = strftime_HM 10 0, end_time = strftime_HM 10 0,
       schedule_timestamp = None\<rparr>\<rparr>"
  have h: "enabled (schedule_settings ?night)"
    "start_time (schedule_settings ?night) = strftime_HM 23 0"
    "end_time (schedule_settings ?night) = strftime_HM 5 0"
    by (simp_all add: initial_schedule_def strftime_HM_def two_digits_def digit_char_numerals)
  have e: "enabled (schedule_settings ?empty)"
    "start_time (schedule_settings ?empty) = strftime_HM 10 0"
    "end_time (schedule_settings ?empty) = strftime_HM 10 0"
    by simp_all
  have f: "strftime_HM 4 59 = ''04:59''" "strftime_HM 23 0 = ''23:00''"
    "strftime_HM 5 0 = ''05:00''"
    by (simp_all add: strftime_HM_def two_digits_def digit_char_numerals)
  have b: "(23::nat) < 24" "(0::nat) < 60" "(5::nat) < 24" "(4::nat) < 24" "(59::nat) < 60"
    "(10::nat) < 24"
    by simp_all
  have r1: "get_schedule_status 4 59 ?night = ScheduleActive True ''04:59'' ''23:00'' ''05:00''"
    using schedule_status_window [OF h(1) h(2) b(1) b(2) h(3) b(3) b(2) b(4) b(5)]
    by (simp add: minute_of_day_def f)
  have r2: "get_schedule_status 5 0 ?night = ScheduleActive False ''05:00'' ''23:00'' ''05:00''"
    using schedule_status_window [OF h(1) h(2) b(1) b(2) h(3) b(3) b(2) b(3) b(2)]
    by (simp add: minute_of_day_def f)
  have r3: "\<not> should_be_on (get_schedule_status 10 0 ?empty)"
    using schedule_status_window [OF e(1) e(2) b(6) b(2) e(3) b(6) b(2) b(6) b(2),
        THEN conjunct2]
    by simp
  from h r1 r2 r3 show ?thesis by simp
qed

text \<open>
  C6. A schedule update with the start time \<open>9:00\<close> is answered with 200 and stores \<open>9:00\<close>,
  which is not an \<open>HH:MM\<close> string: \<open>strptime\<close> accepts an hour and a minute without the leading
  zero. With that start and the end \<open>17:00\<close>, the status at 08:00 is \<open>should_be_on\<close> true, since
  the strings are compared character by character and \<open>9:00\<close> is after \<open>17:00\<close>.
\<close>

theorem update_schedule_stores_unpadded_time:
  "update_schedule ''2026-01-01 07:59:00''
     (JObj [(''enabled'', JBool True), (''start_time'', JStr ''9:00''),
            (''end_time'', JStr ''17:00'')]) initial_state =
     (Ok200 \<lparr>enabled = True, start_time = ''9:00'', end_time = ''17:00'',
             schedule_timestamp = Some ''2026-01-01 07:59:00''\<rparr>,
      initial_state\<lparr>schedule_settings :=
        \<lparr>enabled = True, start_time = ''9:00'', end_time = ''17:00'',
         schedule_timestamp = Some ''2026-01-01 07:59:00''\<rparr>\<rparr>) \<and>
   \<not> valid_HHMM ''9:00'' \<and>
   get_schedule_status 8 0
     (snd (update_schedule ''2026-01-01 07:59:00''
        (JObj [(''enabled'', JBool True), (''start_time'', JStr ''9:00''),
               (''end_time'', JStr ''17:00'')]) initial_state)) =
     ScheduleActive True ''08:00'' ''9:00'' ''17:00''"
  by (simp add: schedule_eval status_eval valid_HHMM_def)

subsection \<open>The log\<close>























text \<open>
  C9 (as amended). When the log file does not exist, the history is empty. When the file
  exists and opening it for reading raises an OSError, the exception leaves the handler,
  which has no \<open>try\<close>: the request fails, and no empty result is returned.
\<close>

theorem history_degrades_only_when_file_absent:
  "(rows (data_file st) = None \<longrightarrow> get_history st = Ok200 []) \<and>
   (rows (data_file st) \<noteq> None \<and> read_fails (data_file st) \<longrightarrow>
      get_history st = Unhandled OSError)"
  by (auto simp add: get_history_def last_n_def)

theorem history_degrades_only_when_file_absent_witness:
  "rows (data_file (initial_state\<lparr>data_file :=
      \<lparr>rows = None, read_fails = True, write_fails = False\<rparr>\<rparr>)) = None \<and>
   get_history (initial_state\<lparr>data_file :=
      \<lparr>rows = None, read_fails = True, write_fails = False\<rparr>\<rparr>) = Ok200 [] \<and>
   rows (data_file (initial_state\<lparr>data_file :=
      \<lparr>rows = Some [csv_header], read_fails = True, write_fails = False\<rparr>\<rparr>)) \<noteq> None \<and>
   read_fails (data_file (initial_state\<lparr>data_file :=
      \<lparr>rows = Some [csv_header], read_fails = True, write_fails = False\<rparr>\<rparr>)) \<and>
   get_history (initial_state\<lparr>data_file :=
      \<lparr>rows = Some [csv_header], read_fails = True, write_fails = False\<rparr>\<rparr>) =
     Unhandled OSError"
  using history_degrades_only_when_file_absent [of "initial_state\<lparr>data_file :=
      \<lparr>rows = None, read_fails = True, write_fails = False\<rparr>\<rparr>"]
    history_degrades_only_when_file_absent [of "initial_state\<lparr>data_file :=
      \<lparr>rows = Some [csv_header], read_fails = True, write_fails = False\<rparr>\<rparr>"]
  by simp

theorem history_read_error_counterexample:
  "read_fails (data_file (initial_state\<lparr>data_file :=
      \<lparr>rows = Some [csv_header], read_fails = True, write_fails = False\<rparr>\<rparr>)) \<and>
   get_history (initial_state\<lparr>data_file :=
      \<lparr>rows = Some [csv_header], read_fails = True, write_fails = False\<rparr>\<rparr>) =
     Unhandled OSError \<and>
   get_history (initial_state\<lparr>data_file :=
      \<lparr>rows = Some [csv_header], read_fails = True, write_fails = False\<rparr>\<rparr>) \<noteq> Ok200 []"
  by (simp add: get_history_def)

end
